theory Spec2Isabelle
  imports Complex_Main "HOL-Library.AList" "HOL-Library.Char_ord" "HOL-Library.List_Lexorder"
begin

section \<open>Data model (common/models.py, common/errors.py)\<close>

datatype UserRole = PARENT | CHILD

fun role_value :: "UserRole \<Rightarrow> string" where
  "role_value PARENT = ''parent''"
| "role_value CHILD = ''child''"

datatype TransactionType = DEPOSIT | WITHDRAWAL | INTEREST | ADJUSTMENT

fun type_value :: "TransactionType \<Rightarrow> string" where
  "type_value DEPOSIT = ''deposit''"
| "type_value WITHDRAWAL = ''withdrawal''"
| "type_value INTEREST = ''interest''"
| "type_value ADJUSTMENT = ''adjustment''"

text \<open>
  The exception classes of common/errors.py. \<open>Uncaught n\<close> stands for an exception of
  class \<open>n\<close> that is no \<open>FamilyBankError\<close> and leaves a function of the ledger store
  through none of its \<open>except\<close> clauses. Messages are informational and left out.
\<close>

datatype error =
    UnauthorizedError | ForbiddenError | NotFoundError | BadRequestError
  | InsufficientFundsError | DatabaseError | ConflictError
  | Uncaught string

text \<open>
  Python's \<open>Decimal\<close> values are modelled as exact rationals: every finite decimal is
  one, and sums and products of decimals are exact as long as they fit the 28 significant
  digits of the decimal context. NaN, infinities and longer coefficients are outside the
  model. \<open>float(...)\<close> conversions in returned dictionaries keep the decimal here.
\<close>

type_synonym decimal = rat

definition MAX_TRANSACTION_PAGINATION_LIMIT :: int where
  "MAX_TRANSACTION_PAGINATION_LIMIT = 100"

definition TRANSACTION_PAGINATION_LIMIT :: int where
  "TRANSACTION_PAGINATION_LIMIT = 50"

subsection \<open>KeyPattern\<close>

definition user_pk :: "string \<Rightarrow> string" where
  "user_pk user_id = ''USER#'' @ user_id"

definition profile_sk :: string where
  "profile_sk = ''PROFILE''"

definition transaction_sk :: "string \<Rightarrow> string \<Rightarrow> string" where
  "transaction_sk timestamp transaction_id = ''TRANS#'' @ timestamp @ ''#'' @ transaction_id"

definition parent_gsi1_pk :: "string \<Rightarrow> string" where
  "parent_gsi1_pk parent_id = ''PARENT#'' @ parent_id"

definition child_gsi1_sk :: "string \<Rightarrow> string" where
  "child_gsi1_sk child_id = ''CHILD#'' @ child_id"

definition role_gsi2_pk :: "UserRole \<Rightarrow> string" where
  "role_gsi2_pk role = ''ROLE#'' @ role_value role"

definition user_gsi2_sk :: "string \<Rightarrow> string" where
  "user_gsi2_sk user_id = ''USER#'' @ user_id"

section \<open>The clock: \<open>datetime.utcnow().isoformat()\<close>\<close>

text \<open>
  A naive UTC datetime as Python's \<open>datetime\<close> class holds it. \<open>isoformat\<close> follows the
  library: \<open>YYYY-MM-DDTHH:MM:SS.ffffff\<close> when the microsecond field is not zero and
  \<open>YYYY-MM-DDTHH:MM:SS\<close> when it is zero.
\<close>

record datetime =
  year :: nat
  month :: nat
  day :: nat
  hour :: nat
  minute :: nat
  second :: nat
  microsecond :: nat

definition digit_char :: "nat \<Rightarrow> char" where
  "digit_char d = ''0123456789'' ! (d mod 10)"

fun str_nat :: "nat \<Rightarrow> string" where
  "str_nat n = (if n < 10 then [digit_char n] else str_nat (n div 10) @ [digit_char n])"

definition zfill :: "nat \<Rightarrow> string \<Rightarrow> string" where
  "zfill w s = replicate (w - length s) (CHR ''0'') @ s"

definition isoformat :: "datetime \<Rightarrow> string" where
  "isoformat dt =
     zfill 4 (str_nat (year dt)) @ ''-'' @ zfill 2 (str_nat (month dt)) @ ''-'' @
     zfill 2 (str_nat (day dt)) @ ''T'' @ zfill 2 (str_nat (hour dt)) @ '':'' @
     zfill 2 (str_nat (minute dt)) @ '':'' @ zfill 2 (str_nat (second dt)) @
     (if microsecond dt = 0 then [] else ''.'' @ zfill 6 (str_nat (microsecond dt)))"

text \<open>Chronological order of two datetimes.\<close>

definition earlier :: "datetime \<Rightarrow> datetime \<Rightarrow> bool" where
  "earlier a b =
     ([year a, month a, day a, hour a, minute a, second a, microsecond a]
        < [year b, month b, day b, hour b, minute b, second b, microsecond b])"

section \<open>The key-value store\<close>

text \<open>
  The table holds items addressed by the pair (PK, SK). An item is a dictionary from
  attribute names to strings (S) or numbers (N); it carries its own key attributes. The
  table is an association list, so that a query can enumerate it.

  The operations below are the store's documented behaviour, as far as the ledger uses it:
  a put replaces the whole item under its key; an update edits the item under the key or,
  when there is none, adds an item made of the key and the assigned attributes; a
  transactional write checks every condition against the current table and applies all
  its items or none, reporting one cancellation reason per item. A fault handed to an
  operation is raised by it and nothing is written.
\<close>

datatype attr_value = S string | N decimal

type_synonym item = "string \<rightharpoonup> attr_value"
type_synonym key = "string \<times> string"
type_synonym table = "(key \<times> item) list"

text \<open>
  What the client library raises: a cancelled transaction with its reason codes (a
  subclass of \<open>ClientError\<close>), any other \<open>ClientError\<close> with its code, or an exception
  that is no \<open>ClientError\<close> at all (a connection failure, a timeout, a rejected
  parameter), named by its class.
\<close>

datatype client_exc =
    TransactionCanceledException "string list"
  | ClientError string
  | NonClientError string

definition key_of :: "item \<Rightarrow> key option" where
  "key_of it = (case (it ''PK'', it ''SK'') of
                  (Some (S p), Some (S s)) \<Rightarrow> Some (p, s)
                | _ \<Rightarrow> None)"

definition key_item :: "key \<Rightarrow> item" where
  "key_item k = [''PK'' \<mapsto> S (fst k), ''SK'' \<mapsto> S (snd k)]"

fun set_attrs :: "(string \<times> attr_value) list \<Rightarrow> item \<Rightarrow> item" where
  "set_attrs [] it = it"
| "set_attrs ((a, v) # kvs) it = set_attrs kvs (it(a \<mapsto> v))"

definition get_item :: "client_exc option \<Rightarrow> table \<Rightarrow> key \<Rightarrow> client_exc + item option" where
  "get_item fault tbl k = (case fault of Some e \<Rightarrow> Inl e | None \<Rightarrow> Inr (map_of tbl k))"



datatype transact_item =
    Update key "(string \<times> attr_value) list" "item option \<Rightarrow> bool"
  | Put item

fun cancellation_reason :: "table \<Rightarrow> transact_item \<Rightarrow> string" where
  "cancellation_reason tbl (Update k sets cond) =
     (if cond (map_of tbl k) then ''None'' else ''ConditionalCheckFailed'')"
| "cancellation_reason tbl (Put it) =
     (if key_of it = None then ''ValidationError'' else ''None'')"

fun apply_item :: "table \<Rightarrow> transact_item \<Rightarrow> table" where
  "apply_item tbl (Update k sets cond) =
     AList.update k (set_attrs sets (case map_of tbl k of None \<Rightarrow> key_item k | Some it \<Rightarrow> it)) tbl"
| "apply_item tbl (Put it) =
     (case key_of it of None \<Rightarrow> tbl | Some k \<Rightarrow> AList.update k it tbl)"

definition transact_write_items ::
  "client_exc option \<Rightarrow> table \<Rightarrow> transact_item list \<Rightarrow> (client_exc + unit) \<times> table"
where
  "transact_write_items fault tbl items =
     (case fault of
        Some e \<Rightarrow> (Inl e, tbl)
      | None \<Rightarrow>
          (let reasons = map (cancellation_reason tbl) items
           in if list_all (\<lambda>r. r = ''None'') reasons
              then (Inr (), foldl apply_item tbl items)
              else (Inl (TransactionCanceledException reasons), tbl)))"

section \<open>The ledger store (common/dynamodb.py)\<close>

text \<open>
  What one call of a store method takes from outside: the clock, the generated UUID,
  the faults of its read and of its write, and the writes of other clients that reach
  the table between the read and the write of the call.
\<close>

record env =
  utcnow :: datetime
  uuid4 :: string
  read_fault :: "client_exc option"
  concurrent_writes :: "table \<Rightarrow> table"
  write_fault :: "client_exc option"

text \<open>
  \<open>except ClientError\<close>: a \<open>ClientError\<close> (a cancelled transaction is one) becomes
  \<open>DatabaseError\<close>, any other exception passes through.
\<close>

fun except_ClientError :: "client_exc \<Rightarrow> error" where
  "except_ClientError (TransactionCanceledException reasons) = DatabaseError"
| "except_ClientError (ClientError code) = DatabaseError"
| "except_ClientError (NonClientError n) = Uncaught n"

definition get_user_profile :: "env \<Rightarrow> table \<Rightarrow> string \<Rightarrow> error + item option" where
  "get_user_profile e tbl user_id =
     (case get_item (read_fault e) tbl (user_pk user_id, profile_sk) of
        Inr response \<Rightarrow> Inr response
      | Inl ex \<Rightarrow> Inl (except_ClientError ex))"

text \<open>
  \<open>Decimal(str(d.get(a, 0)))\<close>: the number under the attribute, 0 when it is absent.
  No operation of the program stores text under a numeric attribute; there the model
  lets the conversion raise (\<open>None\<close>).
\<close>

definition get_decimal :: "item \<Rightarrow> string \<Rightarrow> decimal option" where
  "get_decimal d a = (case d a of None \<Rightarrow> Some 0 | Some (N x) \<Rightarrow> Some x | Some (S s) \<Rightarrow> None)"

record transaction_dict =
  transactionId :: string
  userId :: string
  amount :: decimal
  ttype :: string
  description :: string
  balanceAfter :: decimal
  initiatedBy :: string
  timestamp :: string

definition balance_condition :: "decimal \<Rightarrow> item option \<Rightarrow> bool" where
  \<comment> \<open>\<open>attribute_exists(PK) AND balance = :current_balance\<close>\<close>
  "balance_condition current_balance stored =
     (case stored of
        None \<Rightarrow> False
      | Some it \<Rightarrow> it ''PK'' \<noteq> None \<and> it ''balance'' = Some (N current_balance))"

definition transaction_item ::
  "string \<Rightarrow> string \<Rightarrow> string \<Rightarrow> decimal \<Rightarrow> TransactionType \<Rightarrow> string \<Rightarrow> decimal \<Rightarrow> string \<Rightarrow> item"
where
  "transaction_item ts transaction_id user_id amt transaction_type descr new_balance initiated_by =
     [''PK'' \<mapsto> S (user_pk user_id),
      ''SK'' \<mapsto> S (transaction_sk ts transaction_id),
      ''transactionId'' \<mapsto> S transaction_id,
      ''userId'' \<mapsto> S user_id,
      ''amount'' \<mapsto> N amt,
      ''type'' \<mapsto> S (type_value transaction_type),
      ''description'' \<mapsto> S descr,
      ''balanceAfter'' \<mapsto> N new_balance,
      ''initiatedBy'' \<mapsto> S initiated_by,
      ''timestamp'' \<mapsto> S ts]"

definition adjust_balance_with_transaction ::
  "env \<Rightarrow> table \<Rightarrow> string \<Rightarrow> decimal \<Rightarrow> TransactionType \<Rightarrow> string \<Rightarrow> string
     \<Rightarrow> (error + transaction_dict) \<times> table"
where
  "adjust_balance_with_transaction e tbl user_id amt transaction_type descr initiated_by =
     (let ts = isoformat (utcnow e) @ ''Z'';
          transaction_id = uuid4 e
      in case get_user_profile e tbl user_id of
           Inl err \<Rightarrow> (Inl err, tbl)
         | Inr None \<Rightarrow> (Inl NotFoundError, tbl)
         | Inr (Some user_profile) \<Rightarrow>
             (case get_decimal user_profile ''balance'' of
                None \<Rightarrow> (Inl (Uncaught ''InvalidOperation''), tbl)
              | Some current_balance \<Rightarrow>
                  (let new_balance = current_balance + amt
                   in if new_balance < 0 then (Inl InsufficientFundsError, tbl)
                      else
                        (case transact_write_items (write_fault e) (concurrent_writes e tbl)
                                [Update (user_pk user_id, profile_sk)
                                   [(''balance'', N new_balance), (''updatedAt'', S ts)]
                                   (balance_condition current_balance),
                                 Put (transaction_item ts transaction_id user_id amt
                                        transaction_type descr new_balance initiated_by)] of
                           (Inr u, tbl') \<Rightarrow>
                             (Inr \<lparr>transactionId = transaction_id, userId = user_id,
                                   amount = amt, ttype = type_value transaction_type,
                                   description = descr, balanceAfter = new_balance,
                                   initiatedBy = initiated_by, timestamp = ts\<rparr>, tbl')
                         | (Inl (TransactionCanceledException reasons), tbl') \<Rightarrow>
                             (if ''ConditionalCheckFailed'' \<in> set reasons
                              then (Inl ConflictError, tbl')
                              else (Inl DatabaseError, tbl'))
                         | (Inl (ClientError code), tbl') \<Rightarrow> (Inl DatabaseError, tbl')
                         | (Inl (NonClientError n), tbl') \<Rightarrow> (Inl (Uncaught n), tbl')))))"


subsection \<open>Creating and updating a profile\<close>






definition profile_item ::
  "string \<Rightarrow> string \<Rightarrow> string \<Rightarrow> string \<Rightarrow> UserRole \<Rightarrow> string option \<Rightarrow> decimal \<Rightarrow> decimal \<Rightarrow> item"
where
  "profile_item ts user_id em nm ro parent_id bal interest_rate =
     (let it = [''PK'' \<mapsto> S (user_pk user_id),
                ''SK'' \<mapsto> S profile_sk,
                ''userId'' \<mapsto> S user_id,
                ''email'' \<mapsto> S em,
                ''name'' \<mapsto> S nm,
                ''role'' \<mapsto> S (role_value ro),
                ''balance'' \<mapsto> N bal,
                ''interestRate'' \<mapsto> N interest_rate,
                ''createdAt'' \<mapsto> S ts,
                ''updatedAt'' \<mapsto> S ts]
      in case parent_id of
           Some pid \<Rightarrow>
             (if ro = CHILD \<and> pid \<noteq> []
              then it(''parentId'' \<mapsto> S pid,
                      ''GSI1PK'' \<mapsto> S (parent_gsi1_pk pid),
                      ''GSI1SK'' \<mapsto> S (child_gsi1_sk user_id),
                      ''GSI2PK'' \<mapsto> S (role_gsi2_pk CHILD),
                      ''GSI2SK'' \<mapsto> S (user_gsi2_sk user_id))
              else it)
         | None \<Rightarrow> it)"



subsection \<open>Listing transactions\<close>

text \<open>
  What \<open>json.loads(base64.b64decode(token))\<close> can return: a JSON object that is a key of
  the table (string members PK and SK), another JSON object, or a JSON value that is no
  object. The two library functions are parameters of the model: \<open>encode_key\<close> is
  \<open>base64.b64encode(json.dumps(key).encode()).decode()\<close>, and \<open>decode_token\<close> is
  \<open>None\<close> where decoding raises.
\<close>

datatype decoded = KeyJson key | ObjectJson | ScalarJson

record token_codec =
  encode_key :: "key \<Rightarrow> string"
  decode_token :: "string \<Rightarrow> decoded option"

definition begins_with :: "string \<Rightarrow> string \<Rightarrow> bool" where
  "begins_with s p = (take (length p) s = p)"

text \<open>The items of one partition whose sort key has the prefix, in descending order of
  the sort key (\<open>ScanIndexForward = False\<close>).\<close>

definition matching_desc :: "table \<Rightarrow> string \<Rightarrow> string \<Rightarrow> (key \<times> item) list" where
  "matching_desc tbl pk p =
     rev (sort_key (\<lambda>kv. snd (fst kv)) (filter (\<lambda>kv. fst (fst kv) = pk \<and> begins_with (snd (fst kv)) p) tbl))"

definition page_of :: "int \<Rightarrow> (key \<times> item) list \<Rightarrow> item list \<times> key option" where
  "page_of limit xs =
     (let pg = take (nat limit) xs
      in (map snd pg, if nat limit \<le> length xs then Some (fst (last pg)) else None))"

text \<open>
  A descending query of one partition. A limit below 1 and a start key that is no
  dictionary are rejected by the client library before any request; a start key that is
  no key of the partition is rejected by the store. The result holds the page and, when
  the limit was reached, the key of the last item read.
\<close>

definition query ::
  "client_exc option \<Rightarrow> table \<Rightarrow> string \<Rightarrow> string \<Rightarrow> int \<Rightarrow> decoded option
     \<Rightarrow> client_exc + (item list \<times> key option)"
where
  "query fault tbl pk p limit start =
     (case fault of
        Some e \<Rightarrow> Inl e
      | None \<Rightarrow>
          if limit < 1 then Inl (NonClientError ''ParamValidationError'')
          else
            (case start of
               None \<Rightarrow> Inr (page_of limit (matching_desc tbl pk p))
             | Some ScalarJson \<Rightarrow> Inl (NonClientError ''ParamValidationError'')
             | Some ObjectJson \<Rightarrow> Inl (ClientError ''ValidationException'')
             | Some (KeyJson k) \<Rightarrow>
                 if fst k \<noteq> pk then Inl (ClientError ''ValidationException'')
                 else Inr (page_of limit
                             (filter (\<lambda>kv. snd (fst kv) < snd k) (matching_desc tbl pk p)))))"

record transactions_result =
  transactions :: "item list"
  nextToken :: "string option"

text \<open>\<open>get_transactions\<close> returns its result together with the warnings it logged.\<close>

definition get_transactions ::
  "token_codec \<Rightarrow> env \<Rightarrow> table \<Rightarrow> string \<Rightarrow> int \<Rightarrow> string option
     \<Rightarrow> (error + transactions_result) \<times> string list"
where
  "get_transactions c e tbl user_id limit next_token =
     (let (start, warnings) =
            (case next_token of
               None \<Rightarrow> (None, [])
             | Some t \<Rightarrow>
                 if t = [] then (None, [])
                 else (case decode_token c t of
                         Some d \<Rightarrow> (Some d, [])
                       | None \<Rightarrow> (None, [''Invalid pagination token''])))
      in (case query (read_fault e) tbl (user_pk user_id) ''TRANS#'' limit start of
            Inr (items, last_evaluated_key) \<Rightarrow>
              Inr \<lparr>transactions = items,
                   nextToken = map_option (encode_key c) last_evaluated_key\<rparr>
          | Inl ex \<Rightarrow> Inl (except_ClientError ex),
          warnings))"

section \<open>Listing transactions over HTTP (lambdas/transactions/list_transactions.py)\<close>

text \<open>
  Python's \<open>int(s)\<close> on a string: surrounding whitespace, an optional sign and decimal
  digits; \<open>None\<close> is the ValueError. Underscores between digits and digits outside ASCII,
  which Python also accepts, are not covered.
\<close>

definition is_space :: "char \<Rightarrow> bool" where
  "is_space c = (c \<in> set [CHR '' '', CHR 0x09, CHR 0x0A, CHR 0x0B, CHR 0x0C, CHR 0x0D])"

definition strip :: "string \<Rightarrow> string" where
  "strip s = rev (dropWhile is_space (rev (dropWhile is_space s)))"

definition digit_val :: "char \<Rightarrow> nat option" where
  "digit_val c = (if CHR ''0'' \<le> c \<and> c \<le> CHR ''9'' then Some (of_char c - 48) else None)"

fun digits_val :: "nat \<Rightarrow> string \<Rightarrow> nat option" where
  "digits_val acc [] = Some acc"
| "digits_val acc (c # cs) =
     (case digit_val c of None \<Rightarrow> None | Some d \<Rightarrow> digits_val (10 * acc + d) cs)"

definition py_int :: "string \<Rightarrow> int option" where
  "py_int s =
     (case strip s of
        [] \<Rightarrow> None
      | c # cs \<Rightarrow>
          if c = CHR ''-'' then (if cs = [] then None else map_option (\<lambda>n. - int n) (digits_val 0 cs))
          else if c = CHR ''+'' then (if cs = [] then None else map_option int (digits_val 0 cs))
          else map_option int (digits_val 0 (c # cs)))"

record auth_context =
  ac_userId :: string
  ac_groups :: "string list"

definition is_parent :: "string list \<Rightarrow> bool" where
  "is_parent groups = (''Parents'' \<in> set groups)"

text \<open>
  The handler up to its call of \<open>get_transactions\<close>: the status code it answers with, or
  the arguments (user, limit, token) it passes to the store.
\<close>

definition list_transactions_call ::
  "env \<Rightarrow> table \<Rightarrow> auth_context \<Rightarrow> (string \<rightharpoonup> string) \<Rightarrow> nat + (string \<times> int \<times> string option)"
where
  "list_transactions_call e tbl auth query_params =
     (let current_user_id = ac_userId auth;
          groups = ac_groups auth;
          target_user_id = (case query_params ''userId'' of None \<Rightarrow> current_user_id | Some u \<Rightarrow> u)
      in case (case query_params ''limit'' of None \<Rightarrow> Some 50 | Some s \<Rightarrow> py_int s) of
           None \<Rightarrow> Inl 500
         | Some requested \<Rightarrow>
             (let next_token = query_params ''nextToken'';
                  limit = (if requested > MAX_TRANSACTION_PAGINATION_LIMIT
                         then MAX_TRANSACTION_PAGINATION_LIMIT else requested)
              in if target_user_id \<noteq> current_user_id
                 then
                   (if \<not> is_parent groups then Inl 403
                    else
                      (case get_user_profile e tbl target_user_id of
                         Inl err \<Rightarrow> Inl 500
                       | Inr None \<Rightarrow> Inl 403
                       | Inr (Some target_profile) \<Rightarrow>
                           if target_profile ''parentId'' \<noteq> Some (S current_user_id) then Inl 403
                           else Inr (target_user_id, limit, next_token)))
                 else Inr (target_user_id, limit, next_token)))"

section \<open>The interest accrual job (lambdas/interest/calculate_interest.py)\<close>







section \<open>Sample values\<close>

definition midnight :: datetime where
  "midnight = \<lparr>year = 2024, month = 1, day = 1, hour = 0, minute = 0, second = 0,
               microsecond = 0\<rparr>"

definition half_past :: datetime where
  "half_past = \<lparr>year = 2024, month = 1, day = 1, hour = 0, minute = 0, second = 0,
                microsecond = 500000\<rparr>"

definition quiet_env :: env where
  "quiet_env = \<lparr>utcnow = half_past, uuid4 = ''txn-1'', read_fault = None,
                concurrent_writes = (\<lambda>tbl. tbl), write_fault = None\<rparr>"

definition child_row :: item where
  "child_row = profile_item ''2024-01-01T00:00:00Z'' ''child-456'' ''child@example.com''
                 ''Test Child'' CHILD (Some ''parent-123'') 100 (5 / 100)"

definition sample_table :: table where
  "sample_table = [((user_pk ''child-456'', profile_sk), child_row)]"





text \<open>Two deposits, the first at midnight sharp and the second half a second later.\<close>

definition midnight_env :: env where
  "midnight_env = quiet_env\<lparr>utcnow := midnight, uuid4 := ''txn-0''\<rparr>"

definition two_deposits :: table where
  "two_deposits =
     snd (adjust_balance_with_transaction quiet_env
            (snd (adjust_balance_with_transaction midnight_env sample_table ''child-456'' 50 DEPOSIT
                    ''First'' ''parent-123''))
            ''child-456'' 20 DEPOSIT ''Second'' ''parent-123'')"



definition sample_codec :: token_codec where
  "sample_codec =
     \<lparr>encode_key = (\<lambda>k. ''key:'' @ snd k),
      decode_token = (\<lambda>t. if take 4 t = ''key:'' then Some (KeyJson (user_pk ''child-456'', drop 4 t))
                           else None)\<rparr>"





section \<open>Properties of the balance adjustment\<close>

lemma profile_key_neq_transaction_key:
  "(user_pk u, profile_sk) \<noteq> (user_pk u, transaction_sk ts tid)"
  by (simp add: profile_sk_def transaction_sk_def)












text \<open>
  C10. An account without a stored profile: when the initial read returns, the adjustment
  fails with NotFound, and in every case it fails and hands the table back as it was, so
  no profile row is created or modified and no transaction record is written.
\<close>

theorem adjust_balance_not_found:
  assumes "map_of tbl (user_pk user_id, profile_sk) = None"
  shows "(read_fault e = None \<longrightarrow>
            adjust_balance_with_transaction e tbl user_id amt ty descr by = (Inl NotFoundError, tbl))
       \<and> (\<exists>err. adjust_balance_with_transaction e tbl user_id amt ty descr by = (Inl err, tbl))"
  using assms
  by (auto simp: adjust_balance_with_transaction_def get_user_profile_def get_item_def
           split: option.splits sum.splits)

theorem adjust_balance_not_found_witness:
  "map_of sample_table (user_pk ''nobody'', profile_sk) = None
   \<and> adjust_balance_with_transaction quiet_env sample_table ''nobody'' 50 DEPOSIT ''Test'' ''parent-123''
       = (Inl NotFoundError, sample_table)"
proof -
  have h: "map_of sample_table (user_pk ''nobody'', profile_sk) = None"
    by (simp add: sample_table_def user_pk_def)
  from adjust_balance_not_found [OF h, of quiet_env 50 DEPOSIT "''Test''" "''parent-123''"] h
  show ?thesis by (simp add: quiet_env_def)
qed













section \<open>Properties of profile creation and update\<close>











section \<open>Properties of the transaction listing\<close>

text \<open>
  C8, as the code has it. Whenever the handler reaches the store, the limit it passes is
  at most 100: it is 50 when the request names none, and \<open>min n 100\<close> when the request
  names the integer \<open>n\<close>, so within 1 and 100 for every \<open>n\<close> that is at least 1.
\<close>

theorem list_transactions_limit:
  assumes "list_transactions_call e tbl auth query_params = Inr (u, limit, tok)"
  shows "limit \<le> 100
       \<and> (query_params ''limit'' = None \<longrightarrow> limit = 50)
       \<and> (\<forall>s. query_params ''limit'' = Some s \<longrightarrow>
             (\<exists>n. py_int s = Some n \<and> limit = min n 100 \<and> (1 \<le> n \<longrightarrow> 1 \<le> limit)))"
  using assms
  by (auto simp: list_transactions_call_def Let_def MAX_TRANSACTION_PAGINATION_LIMIT_def
           split: option.splits if_splits sum.splits error.splits)

theorem list_transactions_limit_witness:
  "list_transactions_call quiet_env sample_table
      \<lparr>ac_userId = ''child-456'', ac_groups = [''Children'']\<rparr> [''limit'' \<mapsto> ''250'']
     = Inr (''child-456'', 100, None)
   \<and> py_int ''250'' = Some 250 \<and> (100::int) = min 250 100"
proof -
  have h: "list_transactions_call quiet_env sample_table
      \<lparr>ac_userId = ''child-456'', ac_groups = [''Children'']\<rparr> [''limit'' \<mapsto> ''250'']
     = Inr (''child-456'', 100, None)"
    by (simp add: list_transactions_call_def Let_def MAX_TRANSACTION_PAGINATION_LIMIT_def
        py_int_def strip_def is_space_def digit_val_def)
  have p: "py_int ''250'' = Some 250"
    by (simp add: py_int_def strip_def is_space_def digit_val_def)
  from list_transactions_limit [OF h] h p show ?thesis by simp
qed

text \<open>
  C8 as stated fails: a request with \<open>limit=0\<close> reaches the store with the limit 0, which
  is not raised to 1.
\<close>

theorem list_transactions_limit_zero:
  "list_transactions_call quiet_env sample_table
      \<lparr>ac_userId = ''child-456'', ac_groups = [''Children'']\<rparr> [''limit'' \<mapsto> ''0'']
     = Inr (''child-456'', 0, None)
   \<and> \<not> (1 \<le> (0::int))"
  by (simp add: list_transactions_call_def Let_def MAX_TRANSACTION_PAGINATION_LIMIT_def
        py_int_def strip_def is_space_def digit_val_def)

section \<open>Properties of the transaction sort key\<close>

lemma sample_timestamps: "isoformat midnight @ ''Z'' = ''2024-01-01T00:00:00Z''"
  "isoformat half_past @ ''Z'' = ''2024-01-01T00:00:00.500000Z''"
  by (simp_all add: isoformat_def midnight_def half_past_def zfill_def digit_char_def)

text \<open>
  C6 fails on the code. The first of two deposits is written at midnight sharp, the second
  half a second later. The clock's text of the first has no fraction, so the sort key of
  the later deposit is the smaller one, and the listing, which is to show the most recent
  transaction first, shows the earlier deposit first.
\<close>

theorem transaction_sk_order_broken:
  "earlier midnight half_past
   \<and> isoformat midnight @ ''Z'' = ''2024-01-01T00:00:00Z''
   \<and> isoformat half_past @ ''Z'' = ''2024-01-01T00:00:00.500000Z''
   \<and> transaction_sk (isoformat half_past @ ''Z'') ''txn-1''
       < transaction_sk (isoformat midnight @ ''Z'') ''txn-0''
   \<and> map (\<lambda>it. it ''timestamp'')
       (case fst (get_transactions sample_codec quiet_env two_deposits ''child-456'' 50 None) of
          Inr r \<Rightarrow> transactions r | Inl err \<Rightarrow> [])
     = [Some (S ''2024-01-01T00:00:00Z''), Some (S ''2024-01-01T00:00:00.500000Z'')]"
proof -
  have k: "earlier midnight half_past
     \<and> transaction_sk (isoformat half_past @ ''Z'') ''txn-1''
         < transaction_sk (isoformat midnight @ ''Z'') ''txn-0''"
    by (simp add: sample_timestamps) (simp add: earlier_def midnight_def half_past_def transaction_sk_def)
  have l: "map (\<lambda>it. it ''timestamp'')
       (case fst (get_transactions sample_codec quiet_env two_deposits ''child-456'' 50 None) of
          Inr r \<Rightarrow> transactions r | Inl err \<Rightarrow> [])
     = [Some (S ''2024-01-01T00:00:00Z''), Some (S ''2024-01-01T00:00:00.500000Z'')]"
    by (simp add: two_deposits_def adjust_balance_with_transaction_def get_user_profile_def
          get_item_def Let_def midnight_env_def quiet_env_def sample_timestamps sample_table_def
          get_decimal_def child_row_def profile_item_def transact_write_items_def
          balance_condition_def key_of_def transaction_item_def profile_sk_def transaction_sk_def
          user_pk_def get_transactions_def query_def matching_desc_def begins_with_def page_of_def)
  from k l sample_timestamps show ?thesis by simp
qed

subsection \<open>Pages of a descending query\<close>

















section \<open>Properties of the interest accrual job\<close>







end
